theory Spec2Isabelle
  imports Complex_Main
begin

section \<open>The example service of \<^verbatim>\<open>examples/simple-py\<close>\<close>

text \<open>
  The example consists of \<^verbatim>\<open>server.py\<close>, which implements the two handlers of
  \<^verbatim>\<open>ExampleService\<close> and registers them, and \<^verbatim>\<open>client.py\<close>, which calls them.
  The message classes (\<^verbatim>\<open>service_pb2\<close>), the request context (\<^verbatim>\<open>shared_nats_pb2\<close>)
  and the client and registration glue (\<^verbatim>\<open>service_nats_pb2\<close>) are generated modules;
  the example only imports them.
\<close>

subsection \<open>Messages and the request context\<close>

text \<open>
  The records list the fields the example reads and writes. Each record is extensible, so
  a function over \<open>'a EchoRequest_scheme\<close> also covers a message class with further
  fields: they live in the record's \<open>more\<close> part, which the handlers never touch.
  Two message classes have a field \<^verbatim>\<open>message\<close>; the fields are told apart by the
  record's name (\<open>EchoRequest.message\<close>, \<open>EchoResponse.message\<close>).
\<close>

type_synonym header_map = "(string \<times> string) list"

record EchoRequest =
  message :: string

record EchoResponse =
  message :: string
  timestamp :: int

record GetGreetingRequest =
  name :: string

record GetGreetingResponse =
  greeting :: string

text \<open>
  \<^verbatim>\<open>ServerInfo\<close> is what a handler receives next to the request. The handlers read
  \<^verbatim>\<open>info.headers\<close> only, a string-to-string dictionary; it is kept as an association
  list in insertion order.
\<close>

record ServerInfo =
  headers :: header_map

subsection \<open>Python's \<^verbatim>\<open>int\<close> on a float\<close>

text \<open>
  \<^verbatim>\<open>int(x)\<close> of a finite float drops the fractional part, rounding toward zero:
  \<^verbatim>\<open>int(100.9) == 100\<close>, \<^verbatim>\<open>int(-1.5) == -1\<close>. A finite float is a rational number, so
  the reading of the clock is taken as a real.
\<close>

definition py_int :: "real \<Rightarrow> int" where
  "py_int x = (if 0 \<le> x then \<lfloor>x\<rfloor> else - \<lfloor>- x\<rfloor>)"

subsection \<open>The handlers of \<^verbatim>\<open>MyExampleService\<close>\<close>

text \<open>
  \<^verbatim>\<open>
  async def echo(self, req, info):
      print(f"Echo called with message: {req.message}")
      print(f"Request headers: {info.headers}")
      return pb.EchoResponse(message=req.message, timestamp=int(time.time()))
  \<close>
  The class has no fields, so \<^verbatim>\<open>self\<close> carries nothing. The handler reads the wall
  clock once: \<open>now\<close> is the value \<^verbatim>\<open>time.time()\<close> returns during the call, in seconds
  since the epoch. The two \<^verbatim>\<open>print\<close> calls write to standard output and have no part
  in the value returned.
\<close>

definition echo :: "real \<Rightarrow> 'a EchoRequest_scheme \<Rightarrow> 'b ServerInfo_scheme \<Rightarrow> EchoResponse" where
  "echo now req info =
     \<lparr>EchoResponse.message = EchoRequest.message req, timestamp = py_int now\<rparr>"

text \<open>
  \<^verbatim>\<open>
  async def get_greeting(self, req, info):
      print(f"GetGreeting called for: {req.name}")
      print(f"Request headers: {info.headers}")
      greeting = f"Hello, {req.name}!"
      return pb.GetGreetingResponse(greeting=greeting)
  \<close>
\<close>

definition get_greeting ::
  "'a GetGreetingRequest_scheme \<Rightarrow> 'b ServerInfo_scheme \<Rightarrow> GetGreetingResponse" where
  "get_greeting req info = \<lparr>greeting = ''Hello, '' @ name req @ ''!''\<rparr>"

section \<open>The service registry\<close>

text \<open>
  \<^verbatim>\<open>server.py\<close> registers its handler with \<^verbatim>\<open>register_example_service(nc, handler)\<close>
  and \<^verbatim>\<open>client.py\<close> lists \<^verbatim>\<open>client.endpoints()\<close>; both functions are generated code that
  is not among the sources. This section follows the specification's description of them
  (its sections 3, 4.4, 4.5 and 6).
\<close>

text \<open>Modelled from the spec: the states of a service instance,
  \<^verbatim>\<open>state: enum{Starting, Running, Stopping, Stopped}\<close>.\<close>

datatype service_state = Starting | Running | Stopping | Stopped

text \<open>Modelled from the spec: an endpoint,
  \<^verbatim>\<open>{name: string, subject: string, handler: function(request, context) -> response|error}\<close>.
  The handlers of one service take different message types, so the handler's type is a
  parameter.\<close>

record 'h Endpoint =
  ep_name :: string
  ep_subject :: string
  ep_handler :: 'h

text \<open>Modelled from the spec: a service instance,
  \<^verbatim>\<open>{id, name, version, endpoints: ordered sequence<Endpoint>, state}\<close>.\<close>

record 'h ServiceInstance =
  svc_id :: string
  svc_name :: string
  svc_version :: string
  svc_endpoints :: "'h Endpoint list"
  svc_state :: service_state

text \<open>Modelled from the spec: the wire subject of a method, the deterministic mapping
  \<^verbatim>\<open>{service_name}.{version}.{method_name}\<close>.\<close>

definition subject_of :: "string \<Rightarrow> string \<Rightarrow> string \<Rightarrow> string" where
  "subject_of service_name version method_name =
     service_name @ ''.'' @ version @ ''.'' @ method_name"

text \<open>Modelled from the spec: the endpoint built for one declared method of the handler
  set, a method name bound to its function.\<close>

definition build_endpoint :: "string \<Rightarrow> string \<Rightarrow> string \<times> 'h \<Rightarrow> 'h Endpoint" where
  "build_endpoint service_name version method =
     \<lparr>ep_name = fst method,
      ep_subject = subject_of service_name version (fst method),
      ep_handler = snd method\<rparr>"

text \<open>Modelled from the spec: a registration that fails does so at construction time, with
  the subject whose subscription the broker refused.\<close>

datatype registration_error = SubscribeFailed string

text \<open>Modelled from the spec: \<^verbatim>\<open>register(service_name, version, handler_set)\<close> builds one
  endpoint per declared method, in the order of the handler set, and subscribes to each
  method's subject. The instance starts in \<open>Starting\<close> and becomes \<open>Running\<close> once every
  subscription has succeeded; the first subscription that fails is a construction-time
  error. \<open>subscribe\<close> is the broker's answer to a subscription, \<open>sid\<close> the identity
  assigned to the instance.\<close>

definition register ::
  "(string \<Rightarrow> bool) \<Rightarrow> string \<Rightarrow> string \<Rightarrow> string \<Rightarrow> (string \<times> 'h) list
     \<Rightarrow> registration_error + 'h ServiceInstance" where
  "register subscribe sid service_name version handler_set =
     (let starting =
        \<lparr>svc_id = sid, svc_name = service_name, svc_version = version,
         svc_endpoints = map (build_endpoint service_name version) handler_set,
         svc_state = Starting\<rparr>
      in case find (\<lambda>e. \<not> subscribe (ep_subject e)) (svc_endpoints starting) of
           Some e \<Rightarrow> Inl (SubscribeFailed (ep_subject e))
         | None \<Rightarrow> Inr (starting\<lparr>svc_state := Running\<rparr>))"

text \<open>Modelled from the spec: \<^verbatim>\<open>endpoints() -> ordered sequence<string>\<close>, the names of the
  registered endpoints.\<close>

definition endpoints :: "'h ServiceInstance \<Rightarrow> string list" where
  "endpoints svc = map ep_name (svc_endpoints svc)"

text \<open>Modelled from the spec: the methods a handler of the example service declares,
  one interface with one function per method (\<^verbatim>\<open>ExampleServiceHandler\<close>, which
  \<^verbatim>\<open>server.py\<close> imports from the generated module).\<close>

datatype example_method =
  EchoMethod "real \<Rightarrow> EchoRequest \<Rightarrow> ServerInfo \<Rightarrow> EchoResponse"
| GetGreetingMethod "GetGreetingRequest \<Rightarrow> ServerInfo \<Rightarrow> GetGreetingResponse"

text \<open>Modelled from the spec: the handler set of the example service. \<^verbatim>\<open>MyExampleService\<close>
  of \<^verbatim>\<open>server.py\<close> implements the two methods; the generated registration binds them
  to the method names \<^verbatim>\<open>echo\<close> and \<^verbatim>\<open>get_greeting\<close>, in this order.\<close>

definition MyExampleService :: "(string \<times> example_method) list" where
  "MyExampleService =
     [(''echo'', EchoMethod echo), (''get_greeting'', GetGreetingMethod get_greeting)]"

section \<open>The path of a call\<close>

text \<open>
  Between \<^verbatim>\<open>client.echo(echo_req)\<close> in \<^verbatim>\<open>client.py\<close> and the handler in \<^verbatim>\<open>server.py\<close> lie
  the generated client stub, the envelope codec, the broker connection and the generated
  dispatcher. None of them is among the sources; this section follows the specification's
  description of them (its sections 3, 4.1 to 4.4, 6 and 7).
\<close>

type_synonym bytes = string

text \<open>Modelled from the spec: an envelope, \<^verbatim>\<open>{payload: bytes, headers: ordered
  mapping<string,string>}\<close>.\<close>

record Envelope =
  payload :: bytes
  env_headers :: header_map

text \<open>Modelled from the spec: what a dispatcher publishes to a reply subject, a normal
  envelope or an error envelope \<^verbatim>\<open>{code: string, message: string}\<close>. The spec asks for a
  marker that tells the two apart; here the marker is the constructor.\<close>

datatype reply = Normal Envelope | ErrorEnvelope string string

text \<open>Modelled from the spec: a typed message class as the codec sees it. The classes are
  produced by the schema compiler, which the spec treats as external, so the payload
  format is a parameter: how a message is serialised and how bytes are parsed
  (\<open>None\<close> when they do not match the schema).\<close>

record 'm message_type =
  serialize :: "'m \<Rightarrow> bytes"
  parse :: "bytes \<Rightarrow> 'm option"

text \<open>Modelled from the spec: a valid typed message, one that its schema can carry: parsing
  its serialisation gives it back.\<close>

definition valid_message :: "'m message_type \<Rightarrow> 'm \<Rightarrow> bool" where
  "valid_message T m \<longleftrightarrow> parse T (serialize T m) = Some m"

text \<open>Modelled from the spec: the error taxonomy of a client call, \<^verbatim>\<open>Timeout(method_name,
  elapsed)\<close>, \<^verbatim>\<open>TransportError\<close>, \<^verbatim>\<open>DecodeError\<close> and \<^verbatim>\<open>HandlerError\<close> with the code and
  message of the error envelope.\<close>

datatype rpc_error =
  Timeout string real | TransportError | DecodeError | HandlerError string string

text \<open>Modelled from the spec: \<^verbatim>\<open>encode(typed_message, headers) -> Envelope\<close>.\<close>

definition encode :: "'m message_type \<Rightarrow> 'm \<Rightarrow> header_map \<Rightarrow> Envelope" where
  "encode T m hs = \<lparr>payload = serialize T m, env_headers = hs\<rparr>"

text \<open>Modelled from the spec: \<^verbatim>\<open>decode(Envelope, target_type) -> typed_message, headers\<close>,
  which fails with \<^verbatim>\<open>DecodeError\<close> if the bytes do not match the expected schema.\<close>

definition decode :: "'m message_type \<Rightarrow> Envelope \<Rightarrow> rpc_error + 'm \<times> header_map" where
  "decode T env =
     (case parse T (payload env) of
        None \<Rightarrow> Inl DecodeError
      | Some m \<Rightarrow> Inr (m, env_headers env))"

text \<open>Modelled from the spec: the two ways a transport request fails, by expiry of the
  timeout (with the time elapsed) or by a connection-level failure.\<close>

datatype transport_error = Expired real | Disconnected

text \<open>Modelled from the spec: the broker connection as the transport adapter sees it:
  whether it is closed, which subjects the broker accepts, what is published in reply to
  a request on a subject (\<open>None\<close> when nobody replies), and how long the reply takes to
  arrive.\<close>

record Connection =
  conn_closed :: bool
  conn_accepts :: "string \<Rightarrow> bool"
  conn_route :: "string \<Rightarrow> Envelope \<Rightarrow> reply option"
  conn_latency :: real

text \<open>Modelled from the spec: \<^verbatim>\<open>request(subject, envelope, timeout)\<close>. A timeout that is not
  positive expires immediately; the request fails with a transport error if the
  connection is closed or the broker rejects the subject, and with a timeout if no reply
  arrives within \<open>timeout\<close>.\<close>

definition request ::
  "Connection \<Rightarrow> string \<Rightarrow> Envelope \<Rightarrow> real \<Rightarrow> transport_error + reply" where
  "request conn subject env timeout =
     (if timeout \<le> 0 then Inl (Expired 0)
      else if conn_closed conn \<or> \<not> conn_accepts conn subject then Inl Disconnected
      else case conn_route conn subject env of
             None \<Rightarrow> Inl (Expired timeout)
           | Some r \<Rightarrow> if conn_latency conn \<le> timeout then Inr r else Inl (Expired timeout))"

text \<open>Modelled from the spec: the client stub,
  \<^verbatim>\<open>call(method_name, request, headers, timeout) -> (response, response_headers)\<close>: encode
  the request and the headers, derive the subject, issue the transport request, and
  decode the reply into the response type and its headers. A timeout fails with
  \<^verbatim>\<open>Timeout(method_name, elapsed)\<close>, a transport failure with \<^verbatim>\<open>TransportError\<close>, a reply
  that does not decode with \<^verbatim>\<open>DecodeError\<close>, and an error envelope surfaces as
  \<^verbatim>\<open>HandlerError\<close>.\<close>

definition call ::
  "Connection \<Rightarrow> 'req message_type \<Rightarrow> 'resp message_type \<Rightarrow> string \<Rightarrow> string \<Rightarrow> string
     \<Rightarrow> 'req \<Rightarrow> header_map \<Rightarrow> real \<Rightarrow> rpc_error + 'resp \<times> header_map" where
  "call conn T_req T_resp service_name version method_name req hs timeout =
     (let env = encode T_req req hs;
          subject = subject_of service_name version method_name
      in case request conn subject env timeout of
           Inl (Expired elapsed) \<Rightarrow> Inl (Timeout method_name elapsed)
         | Inl Disconnected \<Rightarrow> Inl TransportError
         | Inr (ErrorEnvelope code msg) \<Rightarrow> Inl (HandlerError code msg)
         | Inr (Normal r) \<Rightarrow> decode T_resp r)"

text \<open>Modelled from the spec: the handler of an endpoint as the dispatcher stores it, from
  the clock reading at the invocation and the inbound envelope to the reply.\<close>

type_synonym bound_handler = "real \<Rightarrow> Envelope \<Rightarrow> reply"

text \<open>Modelled from the spec: what the dispatcher does with one inbound message: decode the
  envelope, build the request context from its headers, invoke the handler with the typed
  request and the context; on success encode the response and publish it, on failure
  (\<open>Inl\<close>, a code and a message) publish an error envelope. The handlers of the example
  return a response and set no headers, so the reply carries none. The spec does not say
  what happens to a request that does not decode; here it is answered with an error
  envelope.\<close>

definition bind_handler ::
  "'req message_type \<Rightarrow> 'resp message_type
     \<Rightarrow> (real \<Rightarrow> 'req \<Rightarrow> ServerInfo \<Rightarrow> (string \<times> string) + 'resp) \<Rightarrow> bound_handler" where
  "bind_handler T_req T_resp h now env =
     (case decode T_req env of
        Inl e \<Rightarrow> ErrorEnvelope ''DecodeError'' ''''
      | Inr (req, hs) \<Rightarrow>
          (case h now req \<lparr>headers = hs\<rparr> of
             Inl (code, msg) \<Rightarrow> ErrorEnvelope code msg
           | Inr resp \<Rightarrow> Normal (encode T_resp resp [])))"

text \<open>Modelled from the spec: the delivery of an inbound message to a service instance. A
  running instance hands it to the endpoint subscribed to the subject; an instance that
  is not running accepts no message, and a subject without an endpoint gets no reply.\<close>

definition deliver ::
  "bound_handler ServiceInstance \<Rightarrow> real \<Rightarrow> string \<Rightarrow> Envelope \<Rightarrow> reply option" where
  "deliver svc now subject env =
     (if svc_state svc = Running
      then map_option (\<lambda>e. ep_handler e now env)
             (find (\<lambda>e. ep_subject e = subject) (svc_endpoints svc))
      else None)"

text \<open>Modelled from the spec: an open connection to a broker behind which the service
  instance \<open>svc\<close> is subscribed: a request is delivered to the instance, whose handler
  runs when the clock reads \<open>now\<close>, and the reply arrives after \<open>latency\<close>.\<close>

definition serving :: "bound_handler ServiceInstance \<Rightarrow> real \<Rightarrow> real \<Rightarrow> Connection" where
  "serving svc now latency =
     \<lparr>conn_closed = False, conn_accepts = (\<lambda>subject. True),
      conn_route = deliver svc now, conn_latency = latency\<rparr>"

text \<open>Modelled from the spec: the message classes of the example service, the typed request
  and response structures the code generator produces for its two methods.\<close>

record example_types =
  echo_request :: "EchoRequest message_type"
  echo_response :: "EchoResponse message_type"
  greeting_request :: "GetGreetingRequest message_type"
  greeting_response :: "GetGreetingResponse message_type"

text \<open>Modelled from the spec: the binding of a method of the example handler to its message
  classes. Neither handler of \<^verbatim>\<open>server.py\<close> raises, so each invocation is a success;
  \<^verbatim>\<open>get_greeting\<close> does not read the clock.\<close>

fun bind_method :: "example_types \<Rightarrow> example_method \<Rightarrow> bound_handler" where
  "bind_method S (EchoMethod h) =
     bind_handler (echo_request S) (echo_response S) (\<lambda>now req info. Inr (h now req info))"
| "bind_method S (GetGreetingMethod h) =
     bind_handler (greeting_request S) (greeting_response S) (\<lambda>now req info. Inr (h req info))"

text \<open>Modelled from the spec: \<^verbatim>\<open>register_example_service(nc, handler)\<close> of \<^verbatim>\<open>server.py\<close>, the
  registration of the example's handler set with its methods bound.\<close>

definition register_example_service ::
  "(string \<Rightarrow> bool) \<Rightarrow> string \<Rightarrow> string \<Rightarrow> string \<Rightarrow> example_types
     \<Rightarrow> registration_error + bound_handler ServiceInstance" where
  "register_example_service subscribe sid service_name version S =
     register subscribe sid service_name version
       (map (\<lambda>method. (fst method, bind_method S (snd method))) MyExampleService)"

subsection \<open>A payload format for the example\<close>

text \<open>
  The serialiser of the message classes (\<^verbatim>\<open>service_pb2\<close>) is generated and not among the
  sources, and the spec leaves the payload format to the code generator. The theorems
  about a call therefore hold for every format (\<open>example_types\<close> is a parameter). To run
  a call on concrete input one format is needed; the one below stands in for the
  generated one. It writes a string field as its bytes and the timestamp as eight bytes,
  big-endian two's complement, in front of the message.
\<close>

text \<open>Modelled from the spec: part of the stand-in for the generated serialiser, the \<open>n\<close>
  low bytes of an integer, most significant first.\<close>

fun be_bytes :: "nat \<Rightarrow> int \<Rightarrow> bytes" where
  "be_bytes 0 v = []"
| "be_bytes (Suc n) v = be_bytes n (v div 256) @ [char_of (v mod 256)]"

text \<open>Modelled from the spec: part of the stand-in for the generated parser, the integer
  that bytes denote, most significant first.\<close>

definition be_value :: "bytes \<Rightarrow> int" where
  "be_value bs = foldl (\<lambda>a c. a * 256 + of_char c) 0 bs"

text \<open>Modelled from the spec: part of the stand-in for the generated serialiser, a signed
  64-bit integer as eight bytes.\<close>

definition int64_bytes :: "int \<Rightarrow> bytes" where
  "int64_bytes t = be_bytes 8 (t mod 2 ^ 64)"

text \<open>Modelled from the spec: part of the stand-in for the generated parser, the signed
  64-bit integer that eight bytes denote.\<close>

definition int64_value :: "bytes \<Rightarrow> int" where
  "int64_value bs = (let u = be_value bs in if u < 2 ^ 63 then u else u - 2 ^ 64)"

text \<open>Modelled from the spec: the stand-in for the generated message classes, a payload
  format for the four example messages. A response shorter than the eight bytes of its
  timestamp does not match the schema.\<close>

definition plain_types :: example_types where
  "plain_types =
     \<lparr>echo_request =
        \<lparr>serialize = EchoRequest.message,
         parse = (\<lambda>b. Some \<lparr>EchoRequest.message = b\<rparr>)\<rparr>,
      echo_response =
        \<lparr>serialize = (\<lambda>r. int64_bytes (timestamp r) @ EchoResponse.message r),
         parse = (\<lambda>b. if length b < 8 then None
                       else Some \<lparr>EchoResponse.message = drop 8 b,
                                  timestamp = int64_value (take 8 b)\<rparr>)\<rparr>,
      greeting_request =
        \<lparr>serialize = name, parse = (\<lambda>b. Some \<lparr>name = b\<rparr>)\<rparr>,
      greeting_response =
        \<lparr>serialize = greeting, parse = (\<lambda>b. Some \<lparr>greeting = b\<rparr>)\<rparr>\<rparr>"

text \<open>Modelled from the spec: the answer of a broker that accepts every subscription (the
  broker client library is not among the sources).\<close>

definition accept_all :: "string \<Rightarrow> bool" where
  "accept_all subject = True"

text \<open>Modelled from the spec: the running instance that \<open>register_example_service\<close> yields
  with this broker and this payload format (lemma \<open>register_demo_service\<close>).\<close>

definition demo_service :: "bound_handler ServiceInstance" where
  "demo_service =
     \<lparr>svc_id = ''svc-1'', svc_name = ''ExampleService'', svc_version = ''1.0.0'',
      svc_endpoints =
        map (build_endpoint ''ExampleService'' ''1.0.0'')
          (map (\<lambda>method. (fst method, bind_method plain_types (snd method))) MyExampleService),
      svc_state = Running\<rparr>"

section \<open>Truncation of the clock\<close>

lemma py_int_of_int: "py_int (of_int k) = k"
  by (simp add: py_int_def)

lemma py_int_nonneg_iff: "0 \<le> py_int x \<longleftrightarrow> - 1 < x"
proof (cases "0 \<le> x")
  case True
  then show ?thesis by (simp add: py_int_def)
next
  case False
  then have neg: "x < 0" by simp
  have "0 \<le> - \<lfloor>- x\<rfloor> \<longleftrightarrow> \<lfloor>- x\<rfloor> \<le> 0" by simp
  also have "\<dots> \<longleftrightarrow> - x < 1" by (simp add: floor_le_iff)
  also have "\<dots> \<longleftrightarrow> - 1 < x" by auto
  finally show ?thesis using neg by (simp add: py_int_def)
qed

lemma py_int_mono: "x \<le> y \<Longrightarrow> py_int x \<le> py_int y"
proof -
  assume xy: "x \<le> y"
  consider (pos) "0 \<le> x" | (mixed) "x < 0" "0 \<le> y" | (neg) "y < 0" by linarith
  then show ?thesis
  proof cases
    case pos
    with xy show ?thesis by (simp add: py_int_def floor_mono)
  next
    case mixed
    have "0 \<le> \<lfloor>- x\<rfloor>" using mixed(1) by simp
    moreover have "0 \<le> \<lfloor>y\<rfloor>" using mixed(2) by simp
    moreover have "py_int x = - \<lfloor>- x\<rfloor>" "py_int y = \<lfloor>y\<rfloor>"
      using mixed by (simp_all add: py_int_def)
    ultimately show ?thesis by linarith
  next
    case neg
    have "\<lfloor>- y\<rfloor> \<le> \<lfloor>- x\<rfloor>" using xy by (simp add: floor_mono)
    with neg xy show ?thesis by (simp add: py_int_def)
  qed
qed

lemma py_int_gt: "x - 1 < of_int (py_int x)"
proof (cases "0 \<le> x")
  case True
  then show ?thesis by (simp add: py_int_def)
next
  case False
  have "of_int \<lfloor>- x\<rfloor> \<le> - x" by (rule of_int_floor_le)
  then have "x - 1 < - of_int \<lfloor>- x\<rfloor>" by linarith
  with False show ?thesis by (simp add: py_int_def)
qed

lemma py_int_le: "0 \<le> x \<Longrightarrow> of_int (py_int x) \<le> x"
  by (simp add: py_int_def)

section \<open>The echo handler\<close>

lemma echo_timestamp_nonneg_iff: "0 \<le> timestamp (echo now req info) \<longleftrightarrow> - 1 < now"
  by (simp add: echo_def py_int_nonneg_iff)

text \<open>
  C9. For every \<^verbatim>\<open>EchoRequest\<close> and every \<^verbatim>\<open>ServerInfo\<close>, the response of \<open>echo\<close>
  carries the request's message unchanged; its timestamp is an integer, and it is
  non-negative when the clock reads a time at or after the epoch (\<open>0 \<le> now\<close>, which is
  what \<^verbatim>\<open>time.time()\<close> returns on a clock that is not set before 1970); and the response
  is the same for every \<^verbatim>\<open>ServerInfo\<close>, so it does not depend on the request headers.
\<close>

theorem echo_response:
  "EchoResponse.message (echo now req info) = EchoRequest.message req
   \<and> (0 \<le> now \<longrightarrow> 0 \<le> timestamp (echo now req info))
   \<and> (\<forall>info'. echo now req info' = echo now req info)"
  by (simp add: echo_def py_int_def)

theorem echo_response_witness:
  "(0::real) \<le> 1730000000.25
   \<and> EchoResponse.message
        (echo 1730000000.25 \<lparr>EchoRequest.message = ''Hello from Python!''\<rparr>
           \<lparr>headers = [(''X-User-ID'', ''12345''), (''X-Request-ID'', ''abc-def'')]\<rparr>)
       = ''Hello from Python!''
   \<and> 0 \<le> timestamp
        (echo 1730000000.25 \<lparr>EchoRequest.message = ''Hello from Python!''\<rparr>
           \<lparr>headers = [(''X-User-ID'', ''12345''), (''X-Request-ID'', ''abc-def'')]\<rparr>)
   \<and> echo 1730000000.25 \<lparr>EchoRequest.message = ''Hello from Python!''\<rparr>
         \<lparr>headers = []\<rparr>
       = echo 1730000000.25 \<lparr>EchoRequest.message = ''Hello from Python!''\<rparr>
           \<lparr>headers = [(''X-User-ID'', ''12345''), (''X-Request-ID'', ''abc-def'')]\<rparr>"
  using echo_response [of "1730000000.25" "\<lparr>EchoRequest.message = ''Hello from Python!''\<rparr>"
      "\<lparr>headers = [(''X-User-ID'', ''12345''), (''X-Request-ID'', ''abc-def'')]\<rparr>"]
  by (simp add: echo_def)

section \<open>The greeting handler\<close>

text \<open>
  C10. For every \<^verbatim>\<open>GetGreetingRequest\<close> and every \<^verbatim>\<open>ServerInfo\<close>, the greeting is
  \<^verbatim>\<open>"Hello, "\<close>, then the request's name, then \<^verbatim>\<open>"!"\<close>; any request with the same name
  gets the same response, whatever its other fields and whatever the \<^verbatim>\<open>ServerInfo\<close>.
\<close>

theorem get_greeting_response:
  "greeting (get_greeting req info) = ''Hello, '' @ name req @ ''!''
   \<and> (\<forall>req' info'. name req' = name req \<longrightarrow> get_greeting req' info' = get_greeting req info)"
  by (simp add: get_greeting_def)

theorem get_greeting_response_witness:
  "greeting (get_greeting \<lparr>name = ''Python Developer'', \<dots> = (7::nat)\<rparr> \<lparr>headers = []\<rparr>)
     = ''Hello, Python Developer!''
   \<and> name \<lparr>name = ''Python Developer'', \<dots> = (8::nat)\<rparr>
     = name \<lparr>name = ''Python Developer'', \<dots> = (7::nat)\<rparr>
   \<and> get_greeting \<lparr>name = ''Python Developer'', \<dots> = (8::nat)\<rparr>
         \<lparr>headers = [(''X-User-ID'', ''12345'')]\<rparr>
     = get_greeting \<lparr>name = ''Python Developer'', \<dots> = (7::nat)\<rparr> \<lparr>headers = []\<rparr>"
  using get_greeting_response [of "\<lparr>name = ''Python Developer'', \<dots> = (7::nat)\<rparr>"
      "\<lparr>headers = []\<rparr>"]
  by (simp add: get_greeting_def)

section \<open>Endpoint enumeration\<close>

lemma register_success:
  "register subscribe sid service_name version handler_set = Inr svc \<Longrightarrow>
   svc = \<lparr>svc_id = sid, svc_name = service_name, svc_version = version,
          svc_endpoints = map (build_endpoint service_name version) handler_set,
          svc_state = Running\<rparr>"
  by (auto simp: register_def Let_def split: option.splits)

lemma register_accepting:
  "register (\<lambda>subject. True) sid service_name version handler_set
     = Inr \<lparr>svc_id = sid, svc_name = service_name, svc_version = version,
            svc_endpoints = map (build_endpoint service_name version) handler_set,
            svc_state = Running\<rparr>"
proof -
  have "find (\<lambda>e::'a Endpoint. \<not> True) es = None" for es
    by (induction es) simp_all
  then show ?thesis by (simp add: register_def Let_def)
qed

text \<open>
  C7. After a service has been registered, \<open>endpoints\<close> returns the names of its methods
  in the order in which the handler set declared them, and nothing else; for the example
  service, registered with the methods \<^verbatim>\<open>echo\<close> and \<^verbatim>\<open>get_greeting\<close>, these are exactly
  those two names in that order (the witness).
\<close>

theorem endpoints_registration_order:
  "register subscribe sid service_name version handler_set = Inr svc \<Longrightarrow>
   endpoints svc = map fst handler_set"
proof -
  assume "register subscribe sid service_name version handler_set = Inr svc"
  then have "svc_endpoints svc = map (build_endpoint service_name version) handler_set"
    by (auto dest: register_success)
  then show ?thesis
    by (simp add: endpoints_def build_endpoint_def comp_def)
qed

theorem endpoints_registration_order_witness:
  "\<exists>svc. register (\<lambda>subject. True) ''svc-1'' ''ExampleService'' ''1.0.0'' MyExampleService
            = Inr svc
         \<and> endpoints svc = [''echo'', ''get_greeting'']"
proof -
  obtain svc where
    reg: "register (\<lambda>subject. True) ''svc-1'' ''ExampleService'' ''1.0.0'' MyExampleService
            = Inr svc"
    by (simp add: register_accepting)
  from endpoints_registration_order [OF reg]
  have "endpoints svc = [''echo'', ''get_greeting'']"
    by (simp add: MyExampleService_def)
  with reg show ?thesis by blast
qed

section \<open>The echo scenario, end to end\<close>

text \<open>
  The client of \<^verbatim>\<open>client.py\<close> builds an \<^verbatim>\<open>EchoRequest\<close> and awaits \<^verbatim>\<open>client.echo\<close>: the stub
  encodes the request, the connection carries it to the registered service, the
  dispatcher decodes it and invokes \<open>echo\<close> of \<^verbatim>\<open>server.py\<close>, and the reply travels back and
  is decoded by the stub. The request is made when the clock reads \<open>t_req\<close>, and the
  handler runs when it reads \<open>now\<close>, not before the request: \<open>t_req \<le> now\<close>.
\<close>

subsection \<open>The registered service and its echo endpoint\<close>

lemma register_example_service_success:
  assumes "register_example_service subscribe sid service_name version S = Inr svc"
  shows "svc_state svc = Running"
    and "svc_endpoints svc =
           [build_endpoint service_name version
              (''echo'', bind_method S (EchoMethod echo)),
            build_endpoint service_name version
              (''get_greeting'', bind_method S (GetGreetingMethod get_greeting))]"
  using register_success [OF assms [unfolded register_example_service_def]]
  by (simp_all add: MyExampleService_def)

lemma deliver_echo:
  assumes "register_example_service subscribe sid service_name version S = Inr svc"
  shows "deliver svc now (subject_of service_name version ''echo'') env
           = Some (bind_method S (EchoMethod echo) now env)"
  using register_example_service_success [OF assms]
  by (simp add: deliver_def build_endpoint_def)

lemma bind_echo:
  assumes "valid_message (echo_request S) req"
  shows "bind_method S (EchoMethod echo) now (encode (echo_request S) req hs)
           = Normal (encode (echo_response S) (echo now req \<lparr>headers = hs\<rparr>) [])"
  using assms by (simp add: bind_handler_def decode_def encode_def valid_message_def)

lemma call_echo:
  assumes reg: "register_example_service subscribe sid service_name version S = Inr svc"
    and req: "valid_message (echo_request S) req"
    and resp: "valid_message (echo_response S) (echo now req \<lparr>headers = hs\<rparr>)"
    and timeout: "0 < timeout" "latency \<le> timeout"
  shows "call (serving svc now latency) (echo_request S) (echo_response S)
           service_name version ''echo'' req hs timeout
         = Inr (echo now req \<lparr>headers = hs\<rparr>, [])"
proof -
  have "request (serving svc now latency) (subject_of service_name version ''echo'')
          (encode (echo_request S) req hs) timeout
        = Inr (Normal (encode (echo_response S) (echo now req \<lparr>headers = hs\<rparr>) []))"
    using timeout
    by (simp add: request_def serving_def deliver_echo [OF reg] bind_echo [OF req]
        del: bind_method.simps)
  moreover have "decode (echo_response S)
          (encode (echo_response S) (echo now req \<lparr>headers = hs\<rparr>) [])
        = Inr (echo now req \<lparr>headers = hs\<rparr>, [])"
    using resp by (simp add: decode_def encode_def valid_message_def)
  ultimately show ?thesis by (simp add: call_def Let_def)
qed

subsection \<open>The payload format round-trips\<close>

lemma length_be_bytes: "length (be_bytes n v) = n"
  by (induction n arbitrary: v) simp_all

lemma be_value_snoc: "be_value (bs @ [c]) = be_value bs * 256 + of_char c"
  by (simp add: be_value_def)

lemma be_value_be_bytes: "be_value (be_bytes n v) = v mod 256 ^ n"
proof (induction n arbitrary: v)
  case 0
  then show ?case by (simp add: be_value_def)
next
  case (Suc n)
  have "be_value (be_bytes (Suc n) v) = (v div 256 mod 256 ^ n) * 256 + v mod 256"
    by (simp add: be_value_snoc Suc)
  also have "\<dots> = v mod (256 * 256 ^ n)"
    using zmod_zmult2_eq [of "256 ^ n" v 256] by (simp add: mult.commute)
  finally show ?case by simp
qed

lemma int64_value_bytes:
  assumes "- (2 ^ 63) \<le> t" and "t < 2 ^ 63"
  shows "int64_value (int64_bytes t) = t"
proof -
  have p: "(256::int) ^ 8 = 2 ^ 64" by simp
  have v: "be_value (int64_bytes t) = t mod 2 ^ 64"
    by (simp add: int64_bytes_def be_value_be_bytes p del: power_numeral)
  show ?thesis
  proof (cases "0 \<le> t")
    case True
    then have "t mod 2 ^ 64 = t" using assms by simp
    then show ?thesis using assms by (simp add: int64_value_def v Let_def)
  next
    case False
    have "(t + 2 ^ 64) mod 2 ^ 64 = t + 2 ^ 64"
      using assms False by (intro mod_pos_pos_trivial) simp_all
    then have "t mod 2 ^ 64 = t + 2 ^ 64" by simp
    then show ?thesis using False assms by (simp add: int64_value_def v Let_def)
  qed
qed

lemma length_int64_bytes: "length (int64_bytes t) = 8"
  by (simp add: int64_bytes_def length_be_bytes)

lemma plain_echo_request_valid: "valid_message (echo_request plain_types) req"
  by (simp add: valid_message_def plain_types_def)

lemma plain_echo_response_valid:
  assumes "- (2 ^ 63) \<le> timestamp r" and "timestamp r < 2 ^ 63"
  shows "valid_message (echo_response plain_types) r"
proof -
  have "int64_value (int64_bytes (timestamp r)) = timestamp r"
    using assms by (rule int64_value_bytes)
  then show ?thesis
    by (simp add: valid_message_def plain_types_def length_int64_bytes)
qed

subsection \<open>A call at 100.7 s, handled at 100.9 s\<close>

lemma register_demo_service:
  "register_example_service accept_all ''svc-1'' ''ExampleService'' ''1.0.0'' plain_types
     = Inr demo_service"
proof -
  have all: "accept_all = (\<lambda>subject. True)" by (rule ext) (simp add: accept_all_def)
  show ?thesis
    unfolding register_example_service_def demo_service_def all by (rule register_accepting)
qed

lemma py_int_1009: "py_int (1009 / 10) = 100"
  by (simp add: py_int_def)

lemma demo_call:
  "call (serving demo_service (1009 / 10) (1 / 1000))
     (echo_request plain_types) (echo_response plain_types)
     ''ExampleService'' ''1.0.0'' ''echo'' \<lparr>EchoRequest.message = ''Hello''\<rparr> hs 1
   = Inr (\<lparr>EchoResponse.message = ''Hello'', timestamp = 100\<rparr>, [])"
proof -
  have e: "echo (1009 / 10) \<lparr>EchoRequest.message = ''Hello''\<rparr> \<lparr>headers = hs\<rparr>
      = \<lparr>EchoResponse.message = ''Hello'', timestamp = 100\<rparr>"
    by (simp add: echo_def py_int_1009)
  have v: "valid_message (echo_response plain_types)
      (echo (1009 / 10) \<lparr>EchoRequest.message = ''Hello''\<rparr> \<lparr>headers = hs\<rparr>)"
    unfolding e by (rule plain_echo_response_valid) simp_all
  have t: "(0::real) < 1" "(1 / 1000 :: real) \<le> 1" by simp_all
  show ?thesis
    using call_echo [OF register_demo_service plain_echo_request_valid v t] by (simp only: e)
qed

subsection \<open>The scenario\<close>

text \<open>
  C8, as the claim states it, fails. The example service is registered and running, the
  client sends \<^verbatim>\<open>EchoRequest{message: "Hello"}\<close> at 100.7 s with a timeout of one second,
  the handler runs at 100.9 s and the reply arrives in time. The call returns the message
  sent and the timestamp \<^verbatim>\<open>int(100.9) = 100\<close>, which is less than the time of the request.
\<close>

theorem echo_end_to_end_counterexample:
  "register_example_service accept_all ''svc-1'' ''ExampleService'' ''1.0.0'' plain_types
     = Inr demo_service
   \<and> (1007 / 10 :: real) \<le> 1009 / 10
   \<and> call (serving demo_service (1009 / 10) (1 / 1000))
        (echo_request plain_types) (echo_response plain_types)
        ''ExampleService'' ''1.0.0'' ''echo'' \<lparr>EchoRequest.message = ''Hello''\<rparr> [] 1
       = Inr (\<lparr>EchoResponse.message = ''Hello'', timestamp = 100\<rparr>, [])
   \<and> \<not> (1007 / 10
          \<le> real_of_int (timestamp \<lparr>EchoResponse.message = ''Hello'', timestamp = 100\<rparr>))"
proof (intro conjI)
  show "register_example_service accept_all ''svc-1'' ''ExampleService'' ''1.0.0'' plain_types
      = Inr demo_service"
    by (rule register_demo_service)
  show "(1007 / 10 :: real) \<le> 1009 / 10" by simp
  show "call (serving demo_service (1009 / 10) (1 / 1000))
        (echo_request plain_types) (echo_response plain_types)
        ''ExampleService'' ''1.0.0'' ''echo'' \<lparr>EchoRequest.message = ''Hello''\<rparr> [] 1
       = Inr (\<lparr>EchoResponse.message = ''Hello'', timestamp = 100\<rparr>, [])"
    by (rule demo_call)
  show "\<not> (1007 / 10
          \<le> real_of_int (timestamp \<lparr>EchoResponse.message = ''Hello'', timestamp = 100\<rparr>))"
    by simp
qed

text \<open>
  C8, amended. The example service is registered and running, the payload format carries
  the request and the response, the timeout is positive and the reply arrives within it.
  When the client sends \<^verbatim>\<open>EchoRequest{message: "Hello"}\<close> at clock reading \<open>t_req\<close> and the
  handler runs at \<open>now \<ge> t_req\<close>, the call returns a response and its headers: the response
  carries the message sent and the timestamp \<^verbatim>\<open>int(now)\<close>, which is at least the time of
  the request in whole seconds (\<^verbatim>\<open>int(t_req)\<close>), hence more than the time of the request
  minus one second.
\<close>

theorem echo_end_to_end:
  assumes "register_example_service subscribe sid service_name version S = Inr svc"
    and "valid_message (echo_request S) \<lparr>EchoRequest.message = ''Hello''\<rparr>"
    and "valid_message (echo_response S)
           \<lparr>EchoResponse.message = ''Hello'', timestamp = py_int now\<rparr>"
    and "0 < timeout" and "latency \<le> timeout"
    and "t_req \<le> now"
  shows "\<exists>resp rh.
           call (serving svc now latency) (echo_request S) (echo_response S)
             service_name version ''echo'' \<lparr>EchoRequest.message = ''Hello''\<rparr> hs timeout
           = Inr (resp, rh)
         \<and> EchoResponse.message resp = ''Hello''
         \<and> timestamp resp = py_int now
         \<and> py_int t_req \<le> timestamp resp
         \<and> t_req - 1 < real_of_int (timestamp resp)"
proof -
  let ?req = "\<lparr>EchoRequest.message = ''Hello''\<rparr>"
  let ?resp = "\<lparr>EchoResponse.message = ''Hello'', timestamp = py_int now\<rparr>"
  have resp: "echo now ?req \<lparr>headers = hs\<rparr> = ?resp"
    by (simp add: echo_def)
  have v: "valid_message (echo_response S) (echo now ?req \<lparr>headers = hs\<rparr>)"
    unfolding resp by (rule assms(3))
  have c: "call (serving svc now latency) (echo_request S) (echo_response S)
          service_name version ''echo'' ?req hs timeout = Inr (?resp, [])"
    using call_echo [OF assms(1) assms(2) v assms(4) assms(5)] by (simp only: resp)
  have m: "py_int t_req \<le> py_int now" using assms(6) by (rule py_int_mono)
  have g: "t_req - 1 < real_of_int (py_int now)"
    using assms(6) py_int_gt [of now] by linarith
  show ?thesis
  proof (intro exI conjI)
    show "call (serving svc now latency) (echo_request S) (echo_response S)
          service_name version ''echo'' ?req hs timeout = Inr (?resp, [])"
      by (rule c)
  qed (simp_all add: m g)
qed

theorem echo_end_to_end_witness:
  "register_example_service accept_all ''svc-1'' ''ExampleService'' ''1.0.0'' plain_types
     = Inr demo_service
   \<and> valid_message (echo_request plain_types) \<lparr>EchoRequest.message = ''Hello''\<rparr>
   \<and> valid_message (echo_response plain_types)
        \<lparr>EchoResponse.message = ''Hello'', timestamp = py_int (1009 / 10)\<rparr>
   \<and> (0::real) < 1 \<and> (1 / 1000 :: real) \<le> 1 \<and> (1007 / 10 :: real) \<le> 1009 / 10
   \<and> (\<exists>resp rh.
         call (serving demo_service (1009 / 10) (1 / 1000))
           (echo_request plain_types) (echo_response plain_types)
           ''ExampleService'' ''1.0.0'' ''echo'' \<lparr>EchoRequest.message = ''Hello''\<rparr>
           [(''X-User-ID'', ''12345''), (''X-Request-ID'', ''abc-def'')] 1
         = Inr (resp, rh)
       \<and> EchoResponse.message resp = ''Hello''
       \<and> timestamp resp = py_int (1009 / 10)
       \<and> py_int (1007 / 10) \<le> timestamp resp
       \<and> (1007 / 10 :: real) - 1 < real_of_int (timestamp resp))"
proof -
  have v: "valid_message (echo_response plain_types)
        \<lparr>EchoResponse.message = ''Hello'', timestamp = py_int (1009 / 10)\<rparr>"
    by (rule plain_echo_response_valid) (simp_all add: py_int_1009)
  have t: "(0::real) < 1" "(1 / 1000 :: real) \<le> 1" "(1007 / 10 :: real) \<le> 1009 / 10"
    by simp_all
  note w = echo_end_to_end [OF register_demo_service plain_echo_request_valid v t]
  show ?thesis
    using register_demo_service plain_echo_request_valid v t w by (intro conjI)
qed

end
